theory Spec2Isabelle
  imports Complex_Main "HOL-Library.Sublist"
begin

section \<open>Python text\<close>

text \<open>
  A Python \<open>str\<close> is modelled as a \<open>string\<close> whose characters are the code points
  below 256 (Latin-1), one \<open>char\<close> per code point. The accented letters of the source's
  literals are written \<open>CHR 0x..\<close>.
\<close>

definition whitespace :: "char list" where
  \<comment> \<open>the code points below 256 for which \<open>str.isspace\<close> holds\<close>
  "whitespace = [CHR 0x09, CHR 0x0A, CHR 0x0B, CHR 0x0C, CHR 0x0D,
                 CHR 0x1C, CHR 0x1D, CHR 0x1E, CHR 0x1F, CHR 0x20, CHR 0x85, CHR 0xA0]"

definition isspace :: "char \<Rightarrow> bool" where
  "isspace c = (c \<in> set whitespace)"

definition lower_char :: "char \<Rightarrow> char" where
  \<comment> \<open>\<open>A..Z\<close> and the Latin-1 capitals \<open>0xC0..0xDE\<close> (without the sign \<open>0xD7\<close>) move up by 32\<close>
  "lower_char c =
     (let n = (of_char c :: nat)
      in if (65 \<le> n \<and> n \<le> 90) \<or> (192 \<le> n \<and> n \<le> 222 \<and> n \<noteq> 215)
         then char_of (n + 32) else c)"

definition lower :: "string \<Rightarrow> string" where
  "lower s = map lower_char s"

fun split_from :: "string \<Rightarrow> string \<Rightarrow> string list" where
  "split_from w [] = (if w = [] then [] else [w])"
| "split_from w (c # cs) =
     (if isspace c then (if w = [] then split_from [] cs else w # split_from [] cs)
      else split_from (w @ [c]) cs)"

definition split_ws :: "string \<Rightarrow> string list" where
  \<comment> \<open>\<open>s.split()\<close>: the maximal runs of non-whitespace characters, in order\<close>
  "split_ws s = split_from [] s"

fun join :: "string \<Rightarrow> string list \<Rightarrow> string" where
  "join sep [] = []"
| "join sep [x] = x"
| "join sep (x # y # ys) = x @ sep @ join sep (y # ys)"

definition strip :: "string \<Rightarrow> string" where
  "strip s = rev (dropWhile isspace (rev (dropWhile isspace s)))"

section \<open>Data model (models.py)\<close>

datatype JobPortal = LINKEDIN | LABORUM | BNE | TRABAJANDO

datatype ApplicationStatus = PENDING | APPLIED | VIEWED | REJECTED | INTERVIEW | OFFER

datatype JobType = FULL_TIME | PART_TIME | CONTRACT | INTERNSHIP | FREELANCE

datatype WorkMode = REMOTE | ONSITE | HYBRID

text \<open>
  \<open>datetime\<close> values are instants on a discrete time line. The values of a
  \<open>Dict[str, Any]\<close> are the two kinds the source stores there: text and booleans; a
  dictionary is an association list in insertion order.
\<close>

type_synonym datetime = nat

datatype pyval = PyStr string | PyBool bool

type_synonym pydict = "(string \<times> pyval) list"

fun py_str :: "pyval \<Rightarrow> string" where
  "py_str (PyStr s) = s"
| "py_str (PyBool b) = (if b then ''True'' else ''False'')"

definition dict_get :: "pydict \<Rightarrow> string \<Rightarrow> pyval \<Rightarrow> pyval" where
  \<comment> \<open>\<open>d.get(key, default)\<close>\<close>
  "dict_get d k dflt = (case map_of d k of Some v \<Rightarrow> v | None \<Rightarrow> dflt)"

record CVData =
  cv_id :: string
  cv_user_id :: string
  cv_title :: string
  cv_personal_info :: pydict
  cv_experience :: "pydict list"
  cv_education :: "pydict list"
  cv_skills :: "string list"
  cv_certifications :: "pydict list"
  cv_languages :: "pydict list"
  cv_raw_text :: string
  cv_file_path :: "string option"
  cv_is_default :: bool
  cv_created_at :: datetime
  cv_updated_at :: datetime

record JobPosting =
  jp_id :: string
  jp_portal :: JobPortal
  jp_external_id :: string
  jp_url :: string
  jp_title :: string
  jp_company :: string
  jp_company_url :: "string option"
  jp_location :: string
  jp_work_mode :: "WorkMode option"
  jp_job_type :: "JobType option"
  jp_salary :: "string option"
  jp_description :: string
  jp_requirements :: "string list"
  jp_benefits :: "string list"
  jp_posted_date :: "datetime option"
  jp_deadline :: "datetime option"
  jp_keywords_matched :: "string list"
  jp_match_percentage :: "real option"
  jp_scraped_at :: datetime
  jp_updated_at :: datetime

record JobApplication =
  ja_id :: string
  ja_user_id :: string
  ja_job_id :: string
  ja_cv_used :: string
  ja_cover_letter :: "string option"
  ja_custom_message :: "string option"
  ja_portal_data :: pydict
  ja_status :: ApplicationStatus
  ja_applied_at :: "datetime option"
  ja_last_update :: datetime
  ja_response_received :: bool
  ja_interview_scheduled :: "datetime option"
  ja_notes :: "string option"
  ja_created_at :: datetime

section \<open>The document store\<close>

text \<open>
  A collection is the list of its documents in insertion order, and a document is the
  record of its model class: every stored document validates, and several documents may
  carry the same \<open>id\<close> (no index forbids it). The store answers every call. The three
  collections are the ones the pipeline and the handlers below read and write.
\<close>

record database =
  applications :: "JobApplication list"
  jobs :: "JobPosting list"
  cvs :: "CVData list"

definition find_one :: "('d \<Rightarrow> bool) \<Rightarrow> 'd list \<Rightarrow> 'd option" where
  "find_one q c = List.find q c"

fun update_one :: "('d \<Rightarrow> bool) \<Rightarrow> ('d \<Rightarrow> 'd) \<Rightarrow> 'd list \<Rightarrow> 'd list" where
  \<comment> \<open>\<open>$set\<close> on the first document that matches\<close>
  "update_one q f [] = []"
| "update_one q f (d # ds) = (if q d then f d # ds else d # update_one q f ds)"

definition matched_count :: "('d \<Rightarrow> bool) \<Rightarrow> 'd list \<Rightarrow> nat" where
  \<comment> \<open>the \<open>matched_count\<close> of an \<open>update_one\<close> result\<close>
  "matched_count q c = (if \<exists>d \<in> set c. q d then 1 else 0)"

definition update_many :: "('d \<Rightarrow> bool) \<Rightarrow> ('d \<Rightarrow> 'd) \<Rightarrow> 'd list \<Rightarrow> 'd list" where
  "update_many q f c = map (\<lambda>d. if q d then f d else d) c"

definition insert_one :: "'d \<Rightarrow> 'd list \<Rightarrow> 'd list" where
  "insert_one d c = c @ [d]"

section \<open>Exceptions\<close>

text \<open>
  A computation that may raise returns \<open>Inl\<close> of the exception's text, and
  \<open>try_except\<close> is \<open>try: body except Exception as e: handler(e)\<close>.
\<close>

type_synonym 'a raising = "string + 'a"

definition try_except :: "'a raising \<Rightarrow> (string \<Rightarrow> 'a raising) \<Rightarrow> 'a raising" where
  "try_except body handler = (case body of Inl e \<Rightarrow> handler e | Inr v \<Rightarrow> Inr v)"

section \<open>AI content provider (services/ai\_service.py)\<close>

text \<open>
  An \<open>LlmChat\<close> answers the prompt that \<open>generate_cover_letter\<close> builds from the CV and
  the posting: \<open>Inr\<close> of the response text, or \<open>Inl\<close> of the error that
  \<open>send_message\<close> raises.
\<close>

type_synonym LlmChat = "CVData \<Rightarrow> JobPosting \<Rightarrow> string raising"

record AIService =
  active_chats :: "string \<rightharpoonup> LlmChat"

definition generate_cover_letter ::
  "AIService \<Rightarrow> string \<Rightarrow> CVData \<Rightarrow> JobPosting \<Rightarrow> string raising" where
  "generate_cover_letter ai user_id cv_data job_posting =
     (case active_chats ai user_id of
        None \<Rightarrow>
          Inr (''Estimados Sres. de '' @ jp_company job_posting
               @ '', adjunto mi CV para el cargo de '' @ jp_title job_posting
               @ ''. Saludos cordiales.'')
      | Some chat \<Rightarrow>
          try_except (chat cv_data job_posting)
            (\<lambda>e. Inr (''Estimados Sres. de '' @ jp_company job_posting @ '','' @ [CHR 0x0A, CHR 0x0A]
                       @ ''Tengo gran inter'' @ [CHR 0xE9] @ ''s en el cargo de '' @ jp_title job_posting
                       @ ''. Mi experiencia profesional me permite contribuir efectivamente al equipo. ''
                       @ ''Adjunto mi CV para su revisi'' @ [CHR 0xF3] @ ''n.'' @ [CHR 0x0A, CHR 0x0A]
                       @ ''Saludos cordiales,'' @ [CHR 0x0A]
                       @ py_str (dict_get (cv_personal_info cv_data) ''name'' (PyStr '''')))))"

section \<open>Application pipeline (services/application\_service.py)\<close>

text \<open>
  What one pipeline run reads from outside: the text of an exception raised inside the
  submission routine's \<open>try\<close> block (if any), the ISO text of the clock the routine reads,
  and the two clock readings of \<open>_update_application_status\<close>.
\<close>

record pipeline_env =
  submit_fault :: "string option"
  submit_timestamp :: string
  t_last_update :: datetime
  t_applied_at :: datetime

definition update_application_status ::
  "pipeline_env \<Rightarrow> database \<Rightarrow> string \<Rightarrow> ApplicationStatus \<Rightarrow> string \<Rightarrow> database" where
  "update_application_status env db application_id status note =
     db\<lparr>applications :=
          update_one (\<lambda>a. ja_id a = application_id)
            (\<lambda>a. let a' = a\<lparr>ja_status := status, ja_last_update := t_last_update env,
                              ja_notes := Some note\<rparr>
                  in if status = APPLIED then a'\<lparr>ja_applied_at := Some (t_applied_at env)\<rparr> else a')
            (applications db)\<rparr>"

definition apply_linkedin ::
  "pipeline_env \<Rightarrow> JobApplication \<Rightarrow> JobPosting \<Rightarrow> CVData \<Rightarrow> JobApplication \<times> bool" where
  "apply_linkedin env application job cv =
     (case submit_fault env of
        None \<Rightarrow>
          (application\<lparr>ja_portal_data :=
             [(''method'', PyStr ''linkedin_easy_apply''),
              (''timestamp'', PyStr (submit_timestamp env)),
              (''cover_letter_sent'',
                 PyBool (ja_cover_letter application \<noteq> None \<and> ja_cover_letter application \<noteq> Some ''''))]\<rparr>,
           True)
      | Some e \<Rightarrow> (application, False))"

definition apply_laborum ::
  "pipeline_env \<Rightarrow> JobApplication \<Rightarrow> JobPosting \<Rightarrow> CVData \<Rightarrow> JobApplication \<times> bool" where
  "apply_laborum env application job cv =
     (case submit_fault env of
        None \<Rightarrow>
          (application\<lparr>ja_portal_data :=
             [(''method'', PyStr ''laborum_form''),
              (''timestamp'', PyStr (submit_timestamp env)),
              (''form_filled'', PyBool True)]\<rparr>,
           True)
      | Some e \<Rightarrow> (application, False))"

definition apply_bne ::
  "pipeline_env \<Rightarrow> JobApplication \<Rightarrow> JobPosting \<Rightarrow> CVData \<Rightarrow> JobApplication \<times> bool" where
  "apply_bne env application job cv =
     (case submit_fault env of
        None \<Rightarrow>
          (application\<lparr>ja_portal_data :=
             [(''method'', PyStr ''bne_portal''),
              (''timestamp'', PyStr (submit_timestamp env))]\<rparr>,
           True)
      | Some e \<Rightarrow> (application, False))"

definition apply_trabajando ::
  "pipeline_env \<Rightarrow> JobApplication \<Rightarrow> JobPosting \<Rightarrow> CVData \<Rightarrow> JobApplication \<times> bool" where
  "apply_trabajando env application job cv =
     (case submit_fault env of
        None \<Rightarrow>
          (application\<lparr>ja_portal_data :=
             [(''method'', PyStr ''trabajando_form''),
              (''timestamp'', PyStr (submit_timestamp env))]\<rparr>,
           True)
      | Some e \<Rightarrow> (application, False))"

definition submit ::
  "pipeline_env \<Rightarrow> JobApplication \<Rightarrow> JobPosting \<Rightarrow> CVData \<Rightarrow> JobApplication \<times> bool" where
  \<comment> \<open>the \<open>if\<close>/\<open>elif\<close> chain on \<open>job_posting.portal.value\<close>\<close>
  "submit env application job_posting cv_data =
     (case jp_portal job_posting of
        LINKEDIN \<Rightarrow> apply_linkedin env application job_posting cv_data
      | LABORUM \<Rightarrow> apply_laborum env application job_posting cv_data
      | BNE \<Rightarrow> apply_bne env application job_posting cv_data
      | TRABAJANDO \<Rightarrow> apply_trabajando env application job_posting cv_data)"

definition with_cover_letter ::
  "AIService \<Rightarrow> JobApplication \<Rightarrow> CVData \<Rightarrow> JobPosting \<Rightarrow> JobApplication raising" where
  \<comment> \<open>\<open>if not application.cover_letter: application.cover_letter = await generate_cover_letter(...)\<close>\<close>
  "with_cover_letter ai application cv_data job_posting =
     (if ja_cover_letter application = None \<or> ja_cover_letter application = Some ''''
      then (case generate_cover_letter ai (ja_user_id application) cv_data job_posting of
              Inl e \<Rightarrow> Inl e
            | Inr cover_letter \<Rightarrow> Inr (application\<lparr>ja_cover_letter := Some cover_letter\<rparr>))
      else Inr application)"

definition process_application ::
  "AIService \<Rightarrow> pipeline_env \<Rightarrow> database \<Rightarrow> string \<Rightarrow> database raising" where
  "process_application ai env db application_id =
     try_except
       (case find_one (\<lambda>a. ja_id a = application_id) (applications db) of
          None \<Rightarrow> Inr db
        | Some application \<Rightarrow>
            (case (find_one (\<lambda>j. jp_id j = ja_job_id application) (jobs db),
                   find_one (\<lambda>c. cv_id c = ja_cv_used application) (cvs db)) of
               (Some job_posting, Some cv_data) \<Rightarrow>
                 (case with_cover_letter ai application cv_data job_posting of
                    Inl e \<Rightarrow> Inl e
                  | Inr application' \<Rightarrow>
                      if snd (submit env application' job_posting cv_data)
                      then Inr (update_application_status env db application_id APPLIED
                                  (''Postulaci'' @ [CHR 0xF3] @ ''n enviada a '' @ jp_company job_posting))
                      else Inr (update_application_status env db application_id REJECTED
                                  (''Error en el env'' @ [CHR 0xED] @ ''o'')))
             | _ \<Rightarrow>
                 Inr (update_application_status env db application_id REJECTED ''Datos incompletos'')))
       (\<lambda>e. Inr (update_application_status env db application_id REJECTED e))"

section \<open>Compatibility fallback (services/ai\_service.py)\<close>

text \<open>
  \<open>_basic_compatibility_analysis\<close>. The common words are a Python \<open>set\<close>; the order
  in which \<open>list(common_words)\<close> enumerates it is the parameter \<open>list_of\<close>.
\<close>

record compatibility_analysis =
  compatibility_percentage :: nat
  strengths :: "string list"
  weaknesses :: "string list"
  recommendation :: string
  matched_keywords :: "string list"

definition common_words :: "CVData \<Rightarrow> JobPosting \<Rightarrow> string set" where
  "common_words cv_data job_posting =
     (let cv_text = lower (cv_raw_text cv_data);
          job_text = lower (jp_description job_posting @ '' '' @ join '' '' (jp_requirements job_posting))
      in set (split_ws cv_text) \<inter> set (split_ws job_text))"

definition basic_compatibility_analysis ::
  "(string set \<Rightarrow> string list) \<Rightarrow> CVData \<Rightarrow> JobPosting \<Rightarrow> compatibility_analysis" where
  "basic_compatibility_analysis list_of cv_data job_posting =
     (let compatibility = min (card (common_words cv_data job_posting) * 10) 100
      in \<lparr>compatibility_percentage = compatibility,
          strengths = [''Experiencia profesional relevante'', ''Perfil completo'',
                       ''Inter'' @ [CHR 0xE9] @ ''s en el sector''],
          weaknesses = [''Revisar requisitos espec'' @ [CHR 0xED] @ ''ficos'',
                        ''Validar experiencia t'' @ [CHR 0xE9] @ ''cnica''],
          recommendation = (if compatibility > 30 then ''Tal vez'' else ''No''),
          matched_keywords = take 5 (list_of (common_words cv_data job_posting))\<rparr>)"

section \<open>Scrape scheduling (services/scraper\_service.py)\<close>

record SearchFilters =
  sf_id :: string
  sf_user_id :: string
  sf_keywords :: "string list"
  sf_excluded_keywords :: "string list"
  sf_job_types :: "JobType list"
  sf_work_modes :: "WorkMode list"
  sf_locations :: "string list"
  sf_salary_min :: "int option"
  sf_salary_max :: "int option"
  sf_experience_years_min :: "int option"
  sf_experience_years_max :: "int option"
  sf_company_size :: "string list option"
  sf_industries :: "string list"
  sf_portals :: "JobPortal list"
  sf_auto_apply :: bool
  sf_max_applications_per_day :: int
  sf_is_active :: bool
  sf_created_at :: datetime
  sf_updated_at :: datetime

text \<open>
  The service's state: the count per portal and the day (a day number) of the last reset.
  \<open>daily_limits\<close> is set once in \<open>__init__\<close> and never written again.
\<close>

record ScraperService =
  current_counts :: "JobPortal \<Rightarrow> nat"
  last_reset :: nat

fun daily_limits :: "JobPortal \<Rightarrow> nat" where
  "daily_limits LINKEDIN = 20"
| "daily_limits LABORUM = 15"
| "daily_limits BNE = 25"
| "daily_limits TRABAJANDO = 15"

definition reset_daily_limits :: "nat \<Rightarrow> ScraperService \<Rightarrow> ScraperService" where
  "reset_daily_limits today svc =
     (if today > last_reset svc
      then svc\<lparr>current_counts := (\<lambda>portal. 0), last_reset := today\<rparr>
      else svc)"

definition find_matching_keywords :: "string \<Rightarrow> string list \<Rightarrow> string list" where
  "find_matching_keywords title_text keywords =
     (let text_lower = lower title_text
      in filter (\<lambda>keyword. sublist (lower keyword) text_lower) keywords)"

text \<open>
  What a portal shows for one listing, as far as the scrapers read it: the
  \<open>data-job-id\<close> attribute, the texts of the title, company and location elements and the
  link's \<open>href\<close> (\<open>None\<close> where the element is absent), together with the values drawn while
  the posting is built: the \<open>uuid4\<close> of its \<open>id\<close>, the decimal text of
  \<open>random.randint\<close> and the clock. A fetch either fails as a whole or shows a list of cards.
\<close>

record listing_card =
  lc_job_id :: "string option"
  lc_title :: "string option"
  lc_href :: "string option"
  lc_company :: "string option"
  lc_location :: "string option"
  lc_uuid :: string
  lc_randint :: string
  lc_now :: datetime

datatype page = Unavailable | Listing "listing_card list"

definition new_posting ::
  "listing_card \<Rightarrow> JobPortal \<Rightarrow> string \<Rightarrow> string \<Rightarrow> string \<Rightarrow> string \<Rightarrow> string \<Rightarrow> string list
     \<Rightarrow> JobPosting" where
  \<comment> \<open>the \<open>JobPosting(...)\<close> call of the scrapers; the other fields take their defaults\<close>
  "new_posting entry portal external_id url title company location keywords_matched =
     \<lparr>jp_id = lc_uuid entry, jp_portal = portal, jp_external_id = external_id, jp_url = url,
      jp_title = title, jp_company = company, jp_company_url = None, jp_location = location,
      jp_work_mode = None, jp_job_type = None, jp_salary = None, jp_description = [],
      jp_requirements = [], jp_benefits = [], jp_posted_date = None, jp_deadline = None,
      jp_keywords_matched = keywords_matched, jp_match_percentage = None,
      jp_scraped_at = lc_now entry, jp_updated_at = lc_now entry\<rparr>"

definition last_segment :: "string \<Rightarrow> string" where
  \<comment> \<open>\<open>s.split('/')[-1]\<close>\<close>
  "last_segment s = rev (takeWhile (\<lambda>c. c \<noteq> CHR ''/'') (rev s))"

definition card_linkedin :: "SearchFilters \<Rightarrow> listing_card \<Rightarrow> JobPosting option" where
  \<comment> \<open>a missing element or attribute raises inside the per-entry \<open>try\<close>: the entry is skipped\<close>
  "card_linkedin filters entry =
     (case (lc_job_id entry, lc_title entry, lc_href entry, lc_company entry, lc_location entry) of
        (Some job_id, Some title, Some href, Some company, Some location) \<Rightarrow>
          Some (new_posting entry LINKEDIN job_id href (strip title) (strip company) (strip location)
                  (find_matching_keywords title (sf_keywords filters)))
      | _ \<Rightarrow> None)"

definition scrape_linkedin :: "SearchFilters \<Rightarrow> page \<Rightarrow> JobPosting list" where
  "scrape_linkedin filters pg =
     (case pg of
        Unavailable \<Rightarrow> []
      | Listing job_cards \<Rightarrow>
          List.map_filter (card_linkedin filters) (take (daily_limits LINKEDIN) job_cards))"

definition card_laborum :: "SearchFilters \<Rightarrow> listing_card \<Rightarrow> JobPosting option" where
  "card_laborum filters entry =
     (case lc_title entry of
        None \<Rightarrow> None
      | Some title \<Rightarrow>
          (let location = (case sf_locations filters of [] \<Rightarrow> ''Santiago'' | l # _ \<Rightarrow> l);
               href = (case lc_href entry of None \<Rightarrow> [] | Some h \<Rightarrow> h);
               job_url = (if href \<noteq> [] \<and> \<not> prefix ''http'' href
                          then ''https://www.trabajando.com'' @ href else href)
           in Some (new_posting entry LABORUM
                      (if job_url \<noteq> [] then last_segment job_url else lc_randint entry)
                      job_url (strip title)
                      (case lc_company entry of Some c \<Rightarrow> strip c | None \<Rightarrow> ''No especificado'')
                      (case lc_location entry of Some l \<Rightarrow> strip l | None \<Rightarrow> location)
                      (find_matching_keywords title (sf_keywords filters)))))"

definition scrape_laborum :: "SearchFilters \<Rightarrow> page \<Rightarrow> JobPosting list" where
  "scrape_laborum filters pg =
     (case pg of
        Unavailable \<Rightarrow> []
      | Listing job_cards \<Rightarrow>
          List.map_filter (card_laborum filters) (take (daily_limits LABORUM) job_cards))"

definition card_bne :: "SearchFilters \<Rightarrow> listing_card \<Rightarrow> JobPosting option" where
  "card_bne filters entry =
     (case lc_title entry of
        None \<Rightarrow> None
      | Some title \<Rightarrow>
          Some (new_posting entry BNE (lc_randint entry)
                  (''https://www.bne.cl/buscar-trabajo?q='' @ join '' '' (sf_keywords filters))
                  (strip title)
                  (case lc_company entry of Some c \<Rightarrow> strip c | None \<Rightarrow> ''Empleador BNE'')
                  ''Chile''
                  (find_matching_keywords title (sf_keywords filters))))"

definition scrape_bne :: "SearchFilters \<Rightarrow> page \<Rightarrow> JobPosting list" where
  "scrape_bne filters pg =
     (case pg of
        Unavailable \<Rightarrow> []
      | Listing job_elements \<Rightarrow>
          List.map_filter (card_bne filters) (take (daily_limits BNE) job_elements))"

definition card_trabajando :: "SearchFilters \<Rightarrow> listing_card \<Rightarrow> JobPosting option" where
  "card_trabajando filters entry =
     (case lc_title entry of
        None \<Rightarrow> None
      | Some title \<Rightarrow>
          Some (new_posting entry TRABAJANDO (lc_randint entry)
                  (''https://cl.trabajando.com/trabajo-empleo-de-'' @ join ''%20'' (sf_keywords filters))
                  (strip title)
                  (case lc_company entry of Some c \<Rightarrow> strip c | None \<Rightarrow> ''Empresa'')
                  ''Santiago, Chile''
                  (find_matching_keywords title (sf_keywords filters))))"

definition scrape_trabajando :: "SearchFilters \<Rightarrow> page \<Rightarrow> JobPosting list" where
  "scrape_trabajando filters pg =
     (case pg of
        Unavailable \<Rightarrow> []
      | Listing job_cards \<Rightarrow>
          List.map_filter (card_trabajando filters) (take (daily_limits TRABAJANDO) job_cards))"

definition scrape :: "JobPortal \<Rightarrow> SearchFilters \<Rightarrow> page \<Rightarrow> JobPosting list" where
  \<comment> \<open>the \<open>if\<close>/\<open>elif\<close> chain of \<open>search_jobs\<close> that picks the portal's scraper\<close>
  "scrape portal filters pg =
     (case portal of
        LINKEDIN \<Rightarrow> scrape_linkedin filters pg
      | LABORUM \<Rightarrow> scrape_laborum filters pg
      | BNE \<Rightarrow> scrape_bne filters pg
      | TRABAJANDO \<Rightarrow> scrape_trabajando filters pg)"

text \<open>
  \<open>search_jobs\<close>: \<open>web i\<close> is what the fetch for the \<open>i\<close>-th entry of \<open>filters.portals\<close>
  meets (read only if that entry is scraped). The log keeps the two \<open>logger.info\<close> lines of
  the loop: the refusal of a portal and the number of postings a scrape found. The scrapers
  catch what their fetch and their listings raise, so the loop's own \<open>except\<close> has no
  branch here; the pacing delays (\<open>_human_delay\<close>) take time and change no state.
\<close>

datatype log_line = LimitReached JobPortal | Found nat JobPortal

fun search_loop ::
  "SearchFilters \<Rightarrow> (nat \<Rightarrow> page) \<Rightarrow> nat \<Rightarrow> JobPortal list
     \<Rightarrow> ScraperService \<Rightarrow> JobPosting list \<Rightarrow> log_line list
     \<Rightarrow> ScraperService \<times> JobPosting list \<times> log_line list" where
  "search_loop filters web i [] svc all_jobs lines = (svc, all_jobs, lines)"
| "search_loop filters web i (portal # rest) svc all_jobs lines =
     (if current_counts svc portal \<ge> daily_limits portal
      then search_loop filters web (Suc i) rest svc all_jobs (lines @ [LimitReached portal])
      else
        (let found = scrape portal filters (web i)
         in search_loop filters web (Suc i) rest
              (svc\<lparr>current_counts :=
                     (current_counts svc)(portal := current_counts svc portal + length found)\<rparr>)
              (all_jobs @ found) (lines @ [Found (length found) portal])))"

definition search_jobs ::
  "nat \<Rightarrow> (nat \<Rightarrow> page) \<Rightarrow> SearchFilters \<Rightarrow> ScraperService
     \<Rightarrow> ScraperService \<times> JobPosting list \<times> log_line list" where
  "search_jobs today web filters svc =
     search_loop filters web 0 (sf_portals filters) (reset_daily_limits today svc) [] []"



section \<open>Request handlers (server.py)\<close>

text \<open>
  A handler either raises an \<open>HTTPException\<close> (status code and detail) or returns the
  store it leaves together with its response. \<open>request_env\<close> holds what a handler draws
  while it builds a document: the \<open>uuid4\<close> of the \<open>id\<close> and the clock readings, in the
  order the handler takes them.
\<close>

datatype HTTPException = HTTPException nat string

record request_env =
  drawn_uuid :: string
  clock_first :: datetime
  clock_second :: datetime

record CVDataCreate =
  cc_title :: string
  cc_personal_info :: pydict
  cc_experience :: "pydict list"
  cc_education :: "pydict list"
  cc_skills :: "string list"
  cc_certifications :: "pydict list"
  cc_languages :: "pydict list"
  cc_raw_text :: string
  cc_is_default :: bool

definition create_cv ::
  "request_env \<Rightarrow> database \<Rightarrow> string \<Rightarrow> CVDataCreate \<Rightarrow> database \<times> CVData" where
  "create_cv env db user_id cv_data =
     (let cv = \<lparr>cv_id = drawn_uuid env, cv_user_id = user_id, cv_title = cc_title cv_data,
                cv_personal_info = cc_personal_info cv_data, cv_experience = cc_experience cv_data,
                cv_education = cc_education cv_data, cv_skills = cc_skills cv_data,
                cv_certifications = cc_certifications cv_data, cv_languages = cc_languages cv_data,
                cv_raw_text = cc_raw_text cv_data, cv_file_path = None,
                cv_is_default = cc_is_default cv_data,
                cv_created_at = clock_first env, cv_updated_at = clock_second env\<rparr>;
          db1 = (if cv_is_default cv
                 then db\<lparr>cvs := update_many (\<lambda>c. cv_user_id c = user_id)
                                   (\<lambda>c. c\<lparr>cv_is_default := False\<rparr>) (cvs db)\<rparr>
                 else db)
      in (db1\<lparr>cvs := insert_one cv (cvs db1)\<rparr>, cv))"

definition update_cv ::
  "request_env \<Rightarrow> database \<Rightarrow> string \<Rightarrow> CVDataCreate \<Rightarrow> HTTPException + (database \<times> CVData)" where
  \<comment> \<open>on 404 nothing matched, so the store is as it was\<close>
  "update_cv env db cv_id' cv_data =
     (let db' = db\<lparr>cvs := update_one (\<lambda>c. cv_id c = cv_id')
                    (\<lambda>c. c\<lparr>cv_title := cc_title cv_data,
                            cv_personal_info := cc_personal_info cv_data,
                            cv_experience := cc_experience cv_data,
                            cv_education := cc_education cv_data,
                            cv_skills := cc_skills cv_data,
                            cv_certifications := cc_certifications cv_data,
                            cv_languages := cc_languages cv_data,
                            cv_raw_text := cc_raw_text cv_data,
                            cv_is_default := cc_is_default cv_data,
                            cv_updated_at := clock_first env\<rparr>)
                    (cvs db)\<rparr>
      in if matched_count (\<lambda>c. cv_id c = cv_id') (cvs db) = 0
         then Inl (HTTPException 404 ''CV no encontrado'')
         else (case find_one (\<lambda>c. cv_id c = cv_id') (cvs db') of
                 Some updated_cv \<Rightarrow> Inr (db', updated_cv)
               | None \<Rightarrow> Inl (HTTPException 500 ''Internal Server Error'')))"

definition get_user_jobs ::
  "database \<Rightarrow> string \<Rightarrow> JobPortal option \<Rightarrow> int \<Rightarrow> int \<Rightarrow> HTTPException + JobPosting list" where
  \<comment> \<open>\<open>find(query).skip(skip).limit(limit).to_list(limit)\<close>: a negative \<open>skip\<close> or length
      raises \<open>ValueError\<close>, which the server answers with status 500\<close>
  "get_user_jobs db user_id portal limit skip =
     (let query = (\<lambda>j. case portal of None \<Rightarrow> True | Some p \<Rightarrow> jp_portal j = p)
      in if skip < 0 \<or> limit < 0 then Inl (HTTPException 500 ''Internal Server Error'')
         else Inr (take (nat limit) (drop (nat skip) (filter query (jobs db)))))"

definition apply_to_job ::
  "request_env \<Rightarrow> database \<Rightarrow> string \<Rightarrow> string \<Rightarrow> string option \<Rightarrow> string option
     \<Rightarrow> HTTPException + (database \<times> string)" where
  \<comment> \<open>the response carries the new application's id, which is also the argument of the
      \<open>process_application\<close> task the handler schedules\<close>
  "apply_to_job env db user_id job_id cv_id' custom_message =
     (case find_one (\<lambda>j. jp_id j = job_id) (jobs db) of
        None \<Rightarrow> Inl (HTTPException 404 ''Trabajo no encontrado'')
      | Some job \<Rightarrow>
          (let default_cv =
                 (case find_one (\<lambda>c. cv_user_id c = user_id \<and> cv_is_default c) (cvs db) of
                    None \<Rightarrow> Inl (HTTPException 400 ''No hay CV por defecto configurado'')
                  | Some cv \<Rightarrow> Inr (cv_id cv));
               chosen = (case cv_id' of
                           None \<Rightarrow> default_cv
                         | Some c \<Rightarrow> if c = [] then default_cv else Inr c)
           in case chosen of
                Inl e \<Rightarrow> Inl e
              | Inr cv_used \<Rightarrow>
                  (let application =
                         \<lparr>ja_id = drawn_uuid env, ja_user_id = user_id, ja_job_id = job_id,
                          ja_cv_used = cv_used, ja_cover_letter = None,
                          ja_custom_message = custom_message, ja_portal_data = [],
                          ja_status = PENDING, ja_applied_at = None,
                          ja_last_update = clock_first env, ja_response_received = False,
                          ja_interview_scheduled = None, ja_notes = None,
                          ja_created_at = clock_second env\<rparr>
                   in Inr (db\<lparr>applications := insert_one application (applications db)\<rparr>,
                           ja_id application))))"

section \<open>Example data\<close>

definition example_application :: JobApplication where
  "example_application =
     \<lparr>ja_id = ''a1'', ja_user_id = ''u1'', ja_job_id = ''j1'', ja_cv_used = ''c1'',
      ja_cover_letter = None, ja_custom_message = None, ja_portal_data = [],
      ja_status = PENDING, ja_applied_at = None, ja_last_update = 1,
      ja_response_received = False, ja_interview_scheduled = None, ja_notes = None,
      ja_created_at = 1\<rparr>"

definition example_job :: JobPosting where
  "example_job =
     \<lparr>jp_id = ''j1'', jp_portal = LINKEDIN, jp_external_id = ''4711'',
      jp_url = ''https://www.linkedin.com/jobs/view/4711'', jp_title = ''Backend Engineer'',
      jp_company = ''Acme'', jp_company_url = None, jp_location = ''Santiago'',
      jp_work_mode = None, jp_job_type = None, jp_salary = None,
      jp_description = ''python backend services with sql'',
      jp_requirements = [''python sql docker''],
      jp_benefits = [], jp_posted_date = None, jp_deadline = None,
      jp_keywords_matched = [], jp_match_percentage = None, jp_scraped_at = 0, jp_updated_at = 0\<rparr>"

definition example_cv :: CVData where
  "example_cv =
     \<lparr>cv_id = ''c1'', cv_user_id = ''u1'', cv_title = ''CV Comercial'',
      cv_personal_info = [(''name'', PyStr ''Ana Rojas'')], cv_experience = [], cv_education = [],
      cv_skills = [''python''], cv_certifications = [], cv_languages = [],
      cv_raw_text = ''Python developer: SQL, Docker and backend services'',
      cv_file_path = None, cv_is_default = True, cv_created_at = 0, cv_updated_at = 0\<rparr>"

definition no_ai :: AIService where
  "no_ai = \<lparr>active_chats = Map.empty\<rparr>"


definition example_env :: pipeline_env where
  "example_env = \<lparr>submit_fault = None, submit_timestamp = ''2024-05-01T12:00:00'',
                  t_last_update = 7, t_applied_at = 8\<rparr>"

definition example_db :: database where
  "example_db = \<lparr>applications = [example_application], jobs = [example_job], cvs = [example_cv]\<rparr>"

definition unrelated_cv :: CVData where
  "unrelated_cv = example_cv\<lparr>cv_raw_text := ''Contador auditor''\<rparr>"

definition cv_order :: "CVData \<Rightarrow> string set \<Rightarrow> string list" where
  \<comment> \<open>an enumeration of a set of CV words: by first occurrence in the CV\<close>
  "cv_order cv S = filter (\<lambda>w. w \<in> S) (remdups (split_ws (lower (cv_raw_text cv))))"

definition example_filters :: SearchFilters where
  "example_filters =
     \<lparr>sf_id = ''f1'', sf_user_id = ''u1'', sf_keywords = [''backend'', ''java'', ''remote''],
      sf_excluded_keywords = [], sf_job_types = [], sf_work_modes = [], sf_locations = [''Santiago''],
      sf_salary_min = None, sf_salary_max = None, sf_experience_years_min = None,
      sf_experience_years_max = None, sf_company_size = None, sf_industries = [],
      sf_portals = [LINKEDIN, BNE], sf_auto_apply = True, sf_max_applications_per_day = 50,
      sf_is_active = True, sf_created_at = 0, sf_updated_at = 0\<rparr>"

definition example_card :: listing_card where
  "example_card =
     \<lparr>lc_job_id = Some ''4711'', lc_title = Some '' Senior Backend Engineer '',
      lc_href = Some ''https://www.linkedin.com/jobs/view/4711'', lc_company = Some ''Acme'',
      lc_location = Some ''Santiago'', lc_uuid = ''p1'', lc_randint = ''12345'', lc_now = 3\<rparr>"

definition example_web :: "nat \<Rightarrow> page" where
  \<comment> \<open>every fetch meets twenty listings\<close>
  "example_web i = Listing (replicate 20 example_card)"

definition counts_of :: "nat \<Rightarrow> JobPortal \<Rightarrow> nat" where
  "counts_of n portal = (if portal = LINKEDIN then n else 0)"

definition nearly_full :: ScraperService where
  \<comment> \<open>LinkedIn one below its ceiling of 20\<close>
  "nearly_full = \<lparr>current_counts = counts_of 19, last_reset = 5\<rparr>"



definition second_cv :: CVData where
  "second_cv = example_cv\<lparr>cv_id := ''c2'', cv_title := ''CV Administrativo'', cv_is_default := False\<rparr>"

definition two_cvs_db :: database where
  \<comment> \<open>user \<open>u1\<close> with CV \<open>c1\<close> (the default) and CV \<open>c2\<close>\<close>
  "two_cvs_db = example_db\<lparr>cvs := [example_cv, second_cv]\<rparr>"

definition make_default :: CVDataCreate where
  "make_default =
     \<lparr>cc_title = ''CV Administrativo'', cc_personal_info = [(''name'', PyStr ''Ana Rojas'')],
      cc_experience = [], cc_education = [], cc_skills = [''excel''], cc_certifications = [],
      cc_languages = [], cc_raw_text = ''Asistente administrativa'', cc_is_default = True\<rparr>"

definition first_request :: request_env where
  "first_request = \<lparr>drawn_uuid = ''a2'', clock_first = 9, clock_second = 9\<rparr>"

definition second_request :: request_env where
  "second_request = \<lparr>drawn_uuid = ''a3'', clock_first = 10, clock_second = 10\<rparr>"

definition no_applications_db :: database where
  "no_applications_db = example_db\<lparr>applications := []\<rparr>"

section \<open>The store's operations\<close>

lemma find_update_one:
  "List.find q c = Some a \<Longrightarrow> q (f a) \<Longrightarrow> List.find q (update_one q f c) = Some (f a)"
  by (induction c) (auto split: if_splits)

lemma update_one_no_match:
  "\<forall>d \<in> set c. \<not> q d \<Longrightarrow> update_one q f c = c"
  by (induction c) auto

lemma map_update_one:
  "(\<And>d. g (f d) = g d) \<Longrightarrow> map g (update_one q f c) = map g c"
  by (induction c) auto

section \<open>The application pipeline\<close>

lemma generate_cover_letter_returns:
  "\<exists>letter. generate_cover_letter ai user_id cv_data job_posting = Inr letter"
  by (auto simp: generate_cover_letter_def try_except_def split: option.splits sum.splits)

lemma process_application_returns:
  "\<exists>db'. process_application ai env db application_id = Inr db'"
  by (auto simp: process_application_def try_except_def split: option.splits sum.splits prod.splits)

text \<open>
  Claim C10. When no application document has the given id, \<open>process_application\<close> returns
  without raising and leaves the store exactly as it was: nothing is written, and no
  application is moved to \<open>rejected\<close>.
\<close>

theorem process_application_unknown_id:
  assumes "\<forall>a \<in> set (applications db). ja_id a \<noteq> application_id"
  shows "process_application ai env db application_id = Inr db"
proof -
  from assms have "find_one (\<lambda>a. ja_id a = application_id) (applications db) = None"
    by (simp add: find_one_def find_None_iff)
  then show ?thesis
    by (simp add: process_application_def try_except_def)
qed

theorem process_application_unknown_id_witness:
  "map ja_id (applications example_db) = [''a1'']
   \<and> process_application no_ai example_env example_db ''zz'' = Inr example_db"
  using process_application_unknown_id [of example_db "''zz''" no_ai example_env]
  by (simp add: example_db_def example_application_def)

text \<open>
  Claim C1. When the application document exists and the lookup of its posting or of its
  CV finds nothing, the run returns, the persisted application has status \<open>rejected\<close> and a
  non-empty note, and its \<open>applied_at\<close> is what it was before the run; the postings and the
  CVs are untouched.
\<close>

theorem process_application_incomplete_data:
  assumes app: "find_one (\<lambda>a. ja_id a = application_id) (applications db) = Some application"
    and missing: "find_one (\<lambda>j. jp_id j = ja_job_id application) (jobs db) = None
                  \<or> find_one (\<lambda>c. cv_id c = ja_cv_used application) (cvs db) = None"
  shows "\<exists>db' a'. process_application ai env db application_id = Inr db'
           \<and> find_one (\<lambda>a. ja_id a = application_id) (applications db') = Some a'
           \<and> ja_status a' = REJECTED
           \<and> (\<exists>note. ja_notes a' = Some note \<and> note \<noteq> [])
           \<and> ja_applied_at a' = ja_applied_at application
           \<and> jobs db' = jobs db \<and> cvs db' = cvs db"
proof -
  let ?q = "\<lambda>a. ja_id a = application_id"
  let ?f = "\<lambda>a::JobApplication. a\<lparr>ja_status := REJECTED, ja_last_update := t_last_update env,
                     ja_notes := Some ''Datos incompletos''\<rparr>"
  let ?db' = "update_application_status env db application_id REJECTED ''Datos incompletos''"
  from app have q: "?q application"
    by (auto simp: find_one_def find_Some_iff)
  from missing app have run: "process_application ai env db application_id = Inr ?db'"
    by (auto simp: process_application_def try_except_def split: option.splits)
  have apps: "applications ?db' = update_one ?q ?f (applications db)"
    by (simp add: update_application_status_def Let_def)
  from app q have "find_one ?q (applications ?db') = Some (?f application)"
    unfolding apps find_one_def by (intro find_update_one) simp_all
  with run show ?thesis
    by (simp add: update_application_status_def)
qed

theorem process_application_incomplete_data_witness:
  "find_one (\<lambda>a. ja_id a = ''a1'') (applications (example_db\<lparr>jobs := []\<rparr>)) = Some example_application
   \<and> (find_one (\<lambda>j. jp_id j = ja_job_id example_application) (jobs (example_db\<lparr>jobs := []\<rparr>)) = None
      \<or> find_one (\<lambda>c. cv_id c = ja_cv_used example_application) (cvs (example_db\<lparr>jobs := []\<rparr>)) = None)
   \<and> (\<exists>db' a'. process_application no_ai example_env (example_db\<lparr>jobs := []\<rparr>) ''a1'' = Inr db'
           \<and> find_one (\<lambda>a. ja_id a = ''a1'') (applications db') = Some a'
           \<and> ja_status a' = REJECTED
           \<and> (\<exists>note. ja_notes a' = Some note \<and> note \<noteq> [])
           \<and> ja_applied_at a' = ja_applied_at example_application
           \<and> jobs db' = jobs (example_db\<lparr>jobs := []\<rparr>) \<and> cvs db' = cvs (example_db\<lparr>jobs := []\<rparr>))"
proof -
  have a: "find_one (\<lambda>a. ja_id a = ''a1'') (applications (example_db\<lparr>jobs := []\<rparr>))
           = Some example_application"
    by (simp add: find_one_def example_db_def example_application_def)
  have b: "find_one (\<lambda>j. jp_id j = ja_job_id example_application) (jobs (example_db\<lparr>jobs := []\<rparr>)) = None
      \<or> find_one (\<lambda>c. cv_id c = ja_cv_used example_application) (cvs (example_db\<lparr>jobs := []\<rparr>)) = None"
    by (simp add: find_one_def)
  from a b process_application_incomplete_data [OF a b, of no_ai example_env]
  show ?thesis by blast
qed

text \<open>
  The only write of the pipeline is \<open>_update_application_status\<close>, whose \<open>$set\<close> names
  \<open>status\<close>, \<open>last_update\<close>, \<open>notes\<close> and, for \<open>applied\<close>, \<open>applied_at\<close>. So no run changes
  the \<open>portal_data\<close> of any persisted application.
\<close>

lemma process_application_keeps_portal_data:
  assumes "process_application ai env db application_id = Inr db'"
  shows "map ja_portal_data (applications db') = map ja_portal_data (applications db)"
proof -
  have upd: "map ja_portal_data (applications (update_application_status env db application_id st nt))
             = map ja_portal_data (applications db)" for st nt
    by (simp add: update_application_status_def Let_def map_update_one)
  from assms show ?thesis
    by (auto simp: process_application_def try_except_def upd split: option.splits sum.splits if_splits)
qed

text \<open>
  Claim C2, at a run whose submission routine returns success: a pending application
  \<open>a1\<close> for a LinkedIn posting. The persisted record becomes \<open>applied\<close> with \<open>applied_at\<close>
  stamped, but its \<open>portal_data\<close> is still empty: \<open>_apply_linkedin\<close> writes the method and
  the timestamp to the in-memory \<open>JobApplication\<close> only (third conjunct), and that object
  is never saved.
\<close>

theorem process_application_drops_portal_data:
  "process_application no_ai example_env example_db ''a1''
     = Inr (example_db\<lparr>applications :=
              [example_application\<lparr>ja_status := APPLIED, ja_applied_at := Some 8, ja_last_update := 7,
                 ja_notes := Some (''Postulaci'' @ [CHR 0xF3] @ ''n enviada a Acme'')\<rparr>]\<rparr>)
   \<and> ja_portal_data example_application = []
   \<and> submit example_env
        (example_application\<lparr>ja_cover_letter :=
           Some ''Estimados Sres. de Acme, adjunto mi CV para el cargo de Backend Engineer. Saludos cordiales.''\<rparr>)
        example_job example_cv
     = (example_application\<lparr>ja_cover_letter :=
           Some ''Estimados Sres. de Acme, adjunto mi CV para el cargo de Backend Engineer. Saludos cordiales.'',
          ja_portal_data := [(''method'', PyStr ''linkedin_easy_apply''),
                             (''timestamp'', PyStr ''2024-05-01T12:00:00''),
                             (''cover_letter_sent'', PyBool True)]\<rparr>, True)"
  by (simp add: process_application_def try_except_def find_one_def with_cover_letter_def
      generate_cover_letter_def submit_def apply_linkedin_def update_application_status_def
      example_db_def example_application_def example_job_def example_cv_def no_ai_def example_env_def)

section \<open>The cover letter fallback\<close>




section \<open>The compatibility fallback\<close>

lemma finite_common_words: "finite (common_words cv_data job_posting)"
  by (simp add: common_words_def Let_def)

text \<open>
  Claim C5. The fallback's percentage is \<open>min (10 * n) 100\<close> for \<open>n\<close> the number of words
  common to the lowercased CV text and the lowercased posting text (description and
  requirements); its recommendation is \<open>Tal vez\<close> (the source's word for "maybe") exactly
  when the percentage exceeds 30, and \<open>No\<close> otherwise. No common word gives 0 and \<open>No\<close>;
  four common words give 40.
\<close>

theorem basic_compatibility_analysis_fallback:
  "compatibility_percentage (basic_compatibility_analysis list_of cv_data job_posting)
     = min (10 * card (common_words cv_data job_posting)) 100
   \<and> recommendation (basic_compatibility_analysis list_of cv_data job_posting)
     = (if compatibility_percentage (basic_compatibility_analysis list_of cv_data job_posting) > 30
        then ''Tal vez'' else ''No'')
   \<and> (card (common_words cv_data job_posting) = 0 \<longrightarrow>
        compatibility_percentage (basic_compatibility_analysis list_of cv_data job_posting) = 0
        \<and> recommendation (basic_compatibility_analysis list_of cv_data job_posting) = ''No'')
   \<and> (card (common_words cv_data job_posting) = 4 \<longrightarrow>
        compatibility_percentage (basic_compatibility_analysis list_of cv_data job_posting) = 40)"
  by (simp add: basic_compatibility_analysis_def Let_def mult.commute)

theorem basic_compatibility_analysis_fallback_witness:
  "common_words example_cv example_job = {''python'', ''docker'', ''backend'', ''services''}
   \<and> card (common_words example_cv example_job) = 4
   \<and> compatibility_percentage (basic_compatibility_analysis (cv_order example_cv) example_cv example_job) = 40
   \<and> recommendation (basic_compatibility_analysis (cv_order example_cv) example_cv example_job) = ''Tal vez''
   \<and> card (common_words unrelated_cv example_job) = 0
   \<and> compatibility_percentage (basic_compatibility_analysis (cv_order unrelated_cv) unrelated_cv example_job) = 0
   \<and> recommendation (basic_compatibility_analysis (cv_order unrelated_cv) unrelated_cv example_job) = ''No''"
proof -
  have words: "common_words example_cv example_job = {''python'', ''docker'', ''backend'', ''services''}"
    by code_simp
  have four: "card (common_words example_cv example_job) = 4"
    by code_simp
  have zero: "card (common_words unrelated_cv example_job) = 0"
    by code_simp
  from words four zero
    basic_compatibility_analysis_fallback [of "cv_order example_cv" example_cv example_job]
    basic_compatibility_analysis_fallback [of "cv_order unrelated_cv" unrelated_cv example_job]
  show ?thesis by simp
qed

section \<open>Quota and scheduling\<close>

lemma length_map_filter_le: "length (List.map_filter f xs) \<le> length xs"
  by (simp add: map_filter_def)

lemma map_filter_replicate_Some:
  "f x = Some y \<Longrightarrow> List.map_filter f (replicate n x) = replicate n y"
  by (induction n) simp_all


text \<open>The example web: what the LinkedIn and the BNE scraper make of the twenty listings.\<close>

lemma card_linkedin_example:
  "card_linkedin example_filters example_card
     = Some (new_posting example_card LINKEDIN ''4711'' ''https://www.linkedin.com/jobs/view/4711''
               ''Senior Backend Engineer'' ''Acme'' ''Santiago'' [''backend''])"
  by code_simp

lemma card_bne_example:
  "card_bne example_filters example_card
     = Some (new_posting example_card BNE ''12345''
               ''https://www.bne.cl/buscar-trabajo?q=backend java remote''
               ''Senior Backend Engineer'' ''Acme'' ''Chile'' [''backend''])"
  by code_simp

lemma scrape_linkedin_example:
  "scrape LINKEDIN example_filters (example_web i)
     = replicate 20 (new_posting example_card LINKEDIN ''4711''
         ''https://www.linkedin.com/jobs/view/4711''
         ''Senior Backend Engineer'' ''Acme'' ''Santiago'' [''backend''])"
proof -
  have "List.map_filter (card_linkedin example_filters) (replicate 20 example_card)
        = replicate 20 (new_posting example_card LINKEDIN ''4711''
            ''https://www.linkedin.com/jobs/view/4711''
            ''Senior Backend Engineer'' ''Acme'' ''Santiago'' [''backend''])"
    using card_linkedin_example by (rule map_filter_replicate_Some)
  then show ?thesis
    by (simp add: scrape_def scrape_linkedin_def example_web_def)
qed

lemma scrape_bne_example:
  "scrape BNE example_filters (example_web i)
     = replicate 20 (new_posting example_card BNE ''12345''
         ''https://www.bne.cl/buscar-trabajo?q=backend java remote''
         ''Senior Backend Engineer'' ''Acme'' ''Chile'' [''backend''])"
proof -
  have "List.map_filter (card_bne example_filters) (replicate 20 example_card)
        = replicate 20 (new_posting example_card BNE ''12345''
            ''https://www.bne.cl/buscar-trabajo?q=backend java remote''
            ''Senior Backend Engineer'' ''Acme'' ''Chile'' [''backend''])"
    using card_bne_example by (rule map_filter_replicate_Some)
  then show ?thesis
    by (simp add: scrape_def scrape_bne_def example_web_def)
qed

lemma example_portals: "sf_portals example_filters = [LINKEDIN, BNE]"
  by (simp add: example_filters_def)

text \<open>
  Claim C4, as the code has it. Each scraper slices the listings by the portal's full
  daily ceiling and never reads the count: a single fetch returns at most
  \<open>daily_limits portal\<close> postings, whatever has been recorded for the portal.
\<close>

theorem scrape_bounded_by_daily_limit:
  "length (scrape portal filters pg) \<le> daily_limits portal"
proof -
  have "length (List.map_filter f (take n xs)) \<le> n"
    for f :: "listing_card \<Rightarrow> JobPosting option" and n xs
    using length_map_filter_le [of f "take n xs"] by simp
  then show ?thesis
    by (cases portal; cases pg)
       (simp_all add: scrape_def scrape_linkedin_def scrape_laborum_def scrape_bne_def
          scrape_trabajando_def)
qed

text \<open>
  Claim C4 as stated fails: with 19 of LinkedIn's 20 recorded, the remaining quota is 1,
  yet the fetch returns 20 postings and the pass leaves the count at 39.
\<close>

theorem scrape_exceeds_remaining_quota:
  "current_counts nearly_full LINKEDIN = 19
   \<and> daily_limits LINKEDIN - current_counts nearly_full LINKEDIN = 1
   \<and> length (scrape LINKEDIN example_filters (example_web 0)) = 20
   \<and> length (filter (\<lambda>j. jp_portal j = LINKEDIN)
               (fst (snd (search_jobs 5 example_web example_filters nearly_full)))) = 20
   \<and> current_counts (fst (search_jobs 5 example_web example_filters nearly_full)) LINKEDIN = 39"
proof -
  have run: "search_jobs 5 example_web example_filters nearly_full
        = (\<lparr>current_counts = (counts_of 19)(LINKEDIN := 39, BNE := 20), last_reset = 5\<rparr>,
           scrape LINKEDIN example_filters (example_web 0)
             @ scrape BNE example_filters (example_web 1),
           [Found 20 LINKEDIN, Found 20 BNE])"
    by (simp add: search_jobs_def reset_daily_limits_def example_portals nearly_full_def
        counts_of_def scrape_linkedin_example scrape_bne_example Let_def)
  show ?thesis
    unfolding run
    by (simp add: scrape_linkedin_example scrape_bne_example new_posting_def nearly_full_def
        counts_of_def)
qed







section \<open>The default CV\<close>

text \<open>
  \<open>create_cv\<close> unsets the flag on the user's other CVs before it inserts a default CV: the
  new CV is then the user's only default.
\<close>

lemma create_cv_single_default:
  assumes "cc_is_default cv_data"
  shows "filter (\<lambda>c. cv_user_id c = user_id \<and> cv_is_default c)
           (cvs (fst (create_cv env db user_id cv_data)))
         = [snd (create_cv env db user_id cv_data)]"
proof -
  have "filter (\<lambda>c. cv_user_id c = user_id \<and> cv_is_default c)
          (update_many (\<lambda>c. cv_user_id c = user_id) (\<lambda>c. c\<lparr>cv_is_default := False\<rparr>) xs) = []"
    for xs :: "CVData list"
    by (induction xs) (simp_all add: update_many_def)
  with assms show ?thesis
    by (simp add: create_cv_def Let_def insert_one_def)
qed

text \<open>
  Claim C7, at an update that sets \<open>is_default\<close>: user \<open>u1\<close> has CV \<open>c1\<close> (the default) and
  CV \<open>c2\<close>, and \<open>update_cv\<close> sets \<open>is_default\<close> on \<open>c2\<close>. The handler writes \<open>c2\<close> only, so
  afterwards both \<open>c1\<close> and \<open>c2\<close> are default.
\<close>

theorem update_cv_leaves_two_defaults:
  "(case update_cv first_request two_cvs_db ''c2'' make_default of
      Inl e \<Rightarrow> False
    | Inr (db', updated_cv) \<Rightarrow>
        map (\<lambda>c. (cv_id c, cv_user_id c, cv_is_default c)) (cvs db')
          = [(''c1'', ''u1'', True), (''c2'', ''u1'', True)]
        \<and> length (filter (\<lambda>c. cv_user_id c = ''u1'' \<and> cv_is_default c) (cvs db')) = 2)
   \<and> map (\<lambda>c. (cv_id c, cv_user_id c, cv_is_default c)) (cvs two_cvs_db)
        = [(''c1'', ''u1'', True), (''c2'', ''u1'', False)]"
  by (simp add: update_cv_def matched_count_def find_one_def two_cvs_db_def example_db_def
      example_cv_def second_cv_def make_default_def first_request_def)

section \<open>Applications per user and posting\<close>

text \<open>
  Claim C8, as the code has it. \<open>apply_to_job\<close> looks for the posting and for a CV, never
  for an application: whenever the posting exists and a CV is given or the user has a
  default CV, it appends a new pending application for the user and the posting to whatever
  applications the store holds.
\<close>

theorem apply_to_job_always_inserts:
  assumes job: "find_one (\<lambda>j. jp_id j = job_id) (jobs db) = Some job"
    and cv: "(cv_id' = Some c \<and> c \<noteq> [])
             \<or> ((cv_id' = None \<or> cv_id' = Some [])
                \<and> find_one (\<lambda>d. cv_user_id d = user_id \<and> cv_is_default d) (cvs db) = Some default_cv
                \<and> cv_id default_cv = c)"
  shows "\<exists>a. apply_to_job env db user_id job_id cv_id' custom_message
               = Inr (db\<lparr>applications := applications db @ [a]\<rparr>, ja_id a)
             \<and> ja_id a = drawn_uuid env \<and> ja_user_id a = user_id \<and> ja_job_id a = job_id
             \<and> ja_cv_used a = c \<and> ja_status a = PENDING"
  using job cv
  by (auto simp: apply_to_job_def Let_def insert_one_def split: option.splits)

theorem apply_to_job_always_inserts_witness:
  "\<exists>a. apply_to_job first_request example_db ''u1'' ''j1'' None None
               = Inr (example_db\<lparr>applications := applications example_db @ [a]\<rparr>, ja_id a)
             \<and> ja_id a = ''a2'' \<and> ja_user_id a = ''u1'' \<and> ja_job_id a = ''j1''
             \<and> ja_cv_used a = ''c1'' \<and> ja_status a = PENDING"
proof -
  have job: "find_one (\<lambda>j. jp_id j = ''j1'') (jobs example_db) = Some example_job"
    by (simp add: find_one_def example_db_def example_job_def)
  have cv: "(None = Some ''c1'' \<and> ''c1'' \<noteq> [])
             \<or> ((None = (None :: string option) \<or> None = Some [])
                \<and> find_one (\<lambda>d. cv_user_id d = ''u1'' \<and> cv_is_default d) (cvs example_db) = Some example_cv
                \<and> cv_id example_cv = ''c1'')"
    by (simp add: find_one_def example_db_def example_cv_def)
  from apply_to_job_always_inserts [OF job cv, of first_request None]
  show ?thesis by (simp add: first_request_def)
qed

text \<open>
  Claim C8 as stated fails: two apply requests of user \<open>u1\<close> for posting \<open>j1\<close> leave two
  pending applications for that pair.
\<close>

theorem apply_to_job_twice:
  "(case apply_to_job first_request no_applications_db ''u1'' ''j1'' None None of
      Inl e \<Rightarrow> False
    | Inr (db1, id1) \<Rightarrow>
        (case apply_to_job second_request db1 ''u1'' ''j1'' None None of
           Inl e \<Rightarrow> False
         | Inr (db2, id2) \<Rightarrow>
             map (\<lambda>a. (ja_id a, ja_user_id a, ja_job_id a, ja_status a)) (applications db2)
               = [(''a2'', ''u1'', ''j1'', PENDING), (''a3'', ''u1'', ''j1'', PENDING)]))"
  by (simp add: apply_to_job_def find_one_def insert_one_def no_applications_db_def example_db_def
      example_job_def example_cv_def first_request_def second_request_def)

section \<open>The jobs listing\<close>

text \<open>
  Claim C9, as the code has it. A \<open>JobPosting\<close> has no \<open>user_id\<close>, and \<open>get_user_jobs\<close> never
  puts its \<open>user_id\<close> into the query: any two users get the same listing for the same
  portal filter, \<open>limit\<close> and \<open>skip\<close>.
\<close>

theorem get_user_jobs_ignores_user:
  "get_user_jobs db user_a portal limit skip = get_user_jobs db user_b portal limit skip"
  by (simp add: get_user_jobs_def)

text \<open>
  Claim C9 as stated fails: the listings of the distinct users \<open>u1\<close> and \<open>u2\<close> contain the
  same posting.
\<close>

theorem get_user_jobs_shared_posting:
  "get_user_jobs example_db ''u1'' None 50 0 = Inr [example_job]
   \<and> get_user_jobs example_db ''u2'' None 50 0 = Inr [example_job]"
  by (simp add: get_user_jobs_def example_db_def)

end
